theory Spec2Isabelle
  imports Complex_Main "HOL-Library.AList"
begin

section \<open>Python values used by the scoring pipeline\<close>

text \<open>
  Python floats are modelled as \<^typ>\<open>real\<close> and Python ints as \<^typ>\<open>int\<close>; text
  is a \<^typ>\<open>string\<close> of single-byte characters. A \<open>dict\<close> is an association list
  in insertion order: \<open>d.get(k, default)\<close> is \<open>dict_get\<close>, \<open>k in d\<close> is
  \<open>dict_has\<close>, \<open>d[k] = v\<close> is \<^const>\<open>AList.update\<close> (an existing key keeps its
  place, a new key goes to the end) and \<open>not d\<close> is \<open>d = []\<close>.
\<close>

definition dict_get :: "('k \<times> 'v) list \<Rightarrow> 'k \<Rightarrow> 'v \<Rightarrow> 'v" where
  "dict_get d k dflt = (case map_of d k of None \<Rightarrow> dflt | Some v \<Rightarrow> v)"

definition dict_has :: "('k \<times> 'v) list \<Rightarrow> 'k \<Rightarrow> bool" where
  "dict_has d k = (k \<in> set (map fst d))"

text \<open>
  \<open>str.lower()\<close> on single-byte text: each of the letters A to Z moves to its
  lower-case letter and every other character stays.
\<close>

definition lower_char :: "char \<Rightarrow> char" where
  "lower_char c =
     (case map_of (zip ''ABCDEFGHIJKLMNOPQRSTUVWXYZ'' ''abcdefghijklmnopqrstuvwxyz'') c of
        None \<Rightarrow> c
      | Some l \<Rightarrow> l)"

definition str_lower :: "string \<Rightarrow> string" where
  "str_lower s = map lower_char s"

fun startswith :: "string \<Rightarrow> string \<Rightarrow> bool" where
  "startswith s [] = True"
| "startswith [] (p # ps) = False"
| "startswith (c # cs) (p # ps) = (c = p \<and> startswith cs ps)"

text \<open>\<open>sub in s\<close> for strings: \<open>sub\<close> occurs in \<open>s\<close> as a contiguous run.\<close>

fun str_in :: "string \<Rightarrow> string \<Rightarrow> bool" where
  "str_in sub [] = (sub = [])"
| "str_in sub (c # cs) = (startswith (c # cs) sub \<or> str_in sub cs)"

text \<open>\<open>sum(1 for word in keywords if word.lower() in content.lower())\<close>\<close>

definition keyword_count :: "string list \<Rightarrow> string \<Rightarrow> int" where
  "keyword_count keywords content =
     sum_list [1. word \<leftarrow> keywords, str_in (str_lower word) (str_lower content)]"


section \<open>cultural\_analyzer.py: the dimension aligner\<close>

definition analyze_power_distance :: "string \<Rightarrow> real \<Rightarrow> real" where
  "analyze_power_distance content pdi_value =
     (let high_pd_keywords = [''hierarchy'', ''authority'', ''boss'', ''leader'', ''executive'', ''management''];
          low_pd_keywords = [''equality'', ''peer'', ''team'', ''collaborative'', ''democratic'', ''accessible''];
          high_pd_count = keyword_count high_pd_keywords content;
          low_pd_count = keyword_count low_pd_keywords content;
          content_pd_tendency =
            real_of_int (high_pd_count - low_pd_count) / real_of_int (max 1 (high_pd_count + low_pd_count));
          country_pd_tendency = (pdi_value - 50) / 50;
          alignment = 1.0 - \<bar>content_pd_tendency - country_pd_tendency\<bar> / 2
      in max 0.0 alignment)"

definition analyze_individualism :: "string \<Rightarrow> real \<Rightarrow> real" where
  "analyze_individualism content idv_value =
     (let individualistic_keywords = [''individual'', ''personal'', ''self'', ''independence'', ''freedom'', ''choice''];
          collectivistic_keywords = [''community'', ''team'', ''together'', ''family'', ''group'', ''collective''];
          ind_count = keyword_count individualistic_keywords content;
          col_count = keyword_count collectivistic_keywords content;
          content_idv_tendency =
            real_of_int (ind_count - col_count) / real_of_int (max 1 (ind_count + col_count));
          country_idv_tendency = (idv_value - 50) / 50;
          alignment = 1.0 - \<bar>content_idv_tendency - country_idv_tendency\<bar> / 2
      in max 0.0 alignment)"

definition analyze_masculinity :: "string \<Rightarrow> real \<Rightarrow> real" where
  "analyze_masculinity content mas_value =
     (let masculine_keywords = [''compete'', ''win'', ''achieve'', ''success'', ''performance'', ''ambitious''];
          feminine_keywords = [''caring'', ''quality'', ''cooperation'', ''relationships'', ''supportive'', ''nurturing''];
          mas_count = keyword_count masculine_keywords content;
          fem_count = keyword_count feminine_keywords content;
          content_mas_tendency =
            real_of_int (mas_count - fem_count) / real_of_int (max 1 (mas_count + fem_count));
          country_mas_tendency = (mas_value - 50) / 50;
          alignment = 1.0 - \<bar>content_mas_tendency - country_mas_tendency\<bar> / 2
      in max 0.0 alignment)"

definition analyze_uncertainty_avoidance :: "string \<Rightarrow> real \<Rightarrow> real" where
  "analyze_uncertainty_avoidance content uai_value =
     (let high_uai_keywords = [''security'', ''certainty'', ''rules'', ''structure'', ''planning'', ''reliable''];
          low_uai_keywords = [''flexible'', ''adaptable'', ''innovation'', ''risk'', ''experiment'', ''spontaneous''];
          high_uai_count = keyword_count high_uai_keywords content;
          low_uai_count = keyword_count low_uai_keywords content;
          content_uai_tendency =
            real_of_int (high_uai_count - low_uai_count) / real_of_int (max 1 (high_uai_count + low_uai_count));
          country_uai_tendency = (uai_value - 50) / 50;
          alignment = 1.0 - \<bar>content_uai_tendency - country_uai_tendency\<bar> / 2
      in max 0.0 alignment)"

definition analyze_long_term_orientation :: "string \<Rightarrow> real \<Rightarrow> real" where
  "analyze_long_term_orientation content lto_value =
     (let long_term_keywords = [''future'', ''tradition'', ''persistence'', ''patience'', ''investment'', ''sustainable''];
          short_term_keywords = [''immediate'', ''quick'', ''now'', ''instant'', ''current'', ''present''];
          lt_count = keyword_count long_term_keywords content;
          st_count = keyword_count short_term_keywords content;
          content_lto_tendency =
            real_of_int (lt_count - st_count) / real_of_int (max 1 (lt_count + st_count));
          country_lto_tendency = (lto_value - 50) / 50;
          alignment = 1.0 - \<bar>content_lto_tendency - country_lto_tendency\<bar> / 2
      in max 0.0 alignment)"

definition analyze_indulgence :: "string \<Rightarrow> real \<Rightarrow> real" where
  "analyze_indulgence content ivr_value =
     (let indulgent_keywords = [''enjoy'', ''fun'', ''pleasure'', ''freedom'', ''happiness'', ''celebration''];
          restrained_keywords = [''control'', ''discipline'', ''modest'', ''serious'', ''formal'', ''conservative''];
          ind_count = keyword_count indulgent_keywords content;
          res_count = keyword_count restrained_keywords content;
          content_ivr_tendency =
            real_of_int (ind_count - res_count) / real_of_int (max 1 (ind_count + res_count));
          country_ivr_tendency = (ivr_value - 50) / 50;
          alignment = 1.0 - \<bar>content_ivr_tendency - country_ivr_tendency\<bar> / 2
      in max 0.0 alignment)"

text \<open>
  The specification's reading of one alignment computation, over the two keyword counts
  and the country's raw value.
\<close>

definition contentTendency :: "int \<Rightarrow> int \<Rightarrow> real" where
  "contentTendency highCount lowCount =
     real_of_int (highCount - lowCount) / real_of_int (max 1 (highCount + lowCount))"

definition countryTendency :: "real \<Rightarrow> real" where
  "countryTendency countryValue = (countryValue - 50) / 50"

definition alignment_spec :: "int \<Rightarrow> int \<Rightarrow> real \<Rightarrow> real \<Rightarrow> bool" where
  "alignment_spec highCount lowCount countryValue r \<longleftrightarrow>
     r = 1 - \<bar>contentTendency highCount lowCount - countryTendency countryValue\<bar> / 2
     \<and> 0 \<le> r \<and> r \<le> 1
     \<and> (contentTendency highCount lowCount = countryTendency countryValue \<longrightarrow> r = 1)
     \<and> (contentTendency highCount lowCount = 1 \<and> countryTendency countryValue = - 1 \<longrightarrow> r = 0)
     \<and> (contentTendency highCount lowCount = - 1 \<and> countryTendency countryValue = 1 \<longrightarrow> r = 0)"



section \<open>bias\_detector.py: the cultural-assumption scan\<close>

text \<open>
  Values of the external provider's reply, as \<open>json.loads\<close> or the line parser leaves
  them: a number, a text, nothing, or a nested dictionary.
\<close>

datatype pyval = PyNone | PyNum real | PyStr string | PyDict "(string \<times> pyval) list"

datatype py_error = TypeError | AttributeError

text \<open>\<open>v.get(k, default)\<close> on a value that may not be a dictionary.\<close>

fun py_get :: "pyval \<Rightarrow> string \<Rightarrow> pyval \<Rightarrow> py_error + pyval" where
  "py_get (PyDict d) k dflt = Inr (dict_get d k dflt)"
| "py_get v k dflt = Inl AttributeError"

text \<open>\<open>int(x)\<close> on a float: truncation towards zero.\<close>

definition py_int :: "real \<Rightarrow> int" where
  "py_int x = (if 0 \<le> x then \<lfloor>x\<rfloor> else \<lceil>x\<rceil>)"

definition risk_to_severity :: "real \<Rightarrow> int" where
  "risk_to_severity risk_score = py_int (risk_score * 10)"

text \<open>
  One bias flag. The flags of the three pattern scans also carry the pattern and its
  matches; the scorer reads \<open>severity\<close> alone, and \<open>None\<close> there is a flag without that
  key.
\<close>

record bias_flag =
  flag_type :: string
  flag_country :: "string option"
  risk_score :: "pyval option"
  description :: pyval
  severity :: "int option"

text \<open>
  The loop of \<open>_detect_cultural_assumptions\<close> over \<open>gemini_insights.items()\<close>. The
  comparison \<open>insights.get("assumption_risk", 0) > 0.6\<close> raises \<open>TypeError\<close> on a value
  that is not a number, and \<open>insights.get\<close> raises \<open>AttributeError\<close> when the country's
  record is not a dictionary.
\<close>

fun assumption_loop :: "(string \<times> pyval) list \<Rightarrow> bias_flag list \<Rightarrow> py_error + bias_flag list" where
  "assumption_loop [] assumption_flags = Inr assumption_flags"
| "assumption_loop ((country, insights) # rest) assumption_flags =
     (case py_get insights ''assumption_risk'' (PyNum 0) of
        Inl e \<Rightarrow> Inl e
      | Inr (PyNum r) \<Rightarrow>
          if r > 0.6 then
            (case py_get insights ''assumption_description'' (PyStr '''') of
               Inl e \<Rightarrow> Inl e
             | Inr d \<Rightarrow>
                 assumption_loop rest
                   (assumption_flags @
                    [\<lparr>flag_type = ''cultural_assumption'', flag_country = Some country,
                      risk_score = Some (PyNum r), description = d,
                      severity = Some (risk_to_severity r)\<rparr>]))
          else assumption_loop rest assumption_flags
      | Inr _ \<Rightarrow> Inl TypeError)"

text \<open>
  The external signal, as \<open>gemini_analysis.get("cultural_insights", {})\<close> reads it: the
  per-country records, empty when the key is missing or the provider's call failed.
\<close>

record gemini_analysis =
  cultural_insights :: "(string \<times> pyval) list"

record scan_result =
  detected :: bool
  category :: string
  scan_flags :: "bias_flag list"
  patterns :: "string list"
  scan_severity :: int

text \<open>\<open>max([f["severity"] for f in flags], default=0)\<close>\<close>

definition max_severity :: "bias_flag list \<Rightarrow> int" where
  "max_severity fs = (if fs = [] then 0 else Max (set (map (\<lambda>f. the (severity f)) fs)))"

definition detect_cultural_assumptions :: "string \<Rightarrow> gemini_analysis \<Rightarrow> py_error + scan_result" where
  "detect_cultural_assumptions content gemini =
     (let gemini_insights = cultural_insights gemini
      in case assumption_loop gemini_insights [] of
           Inl e \<Rightarrow> Inl e
         | Inr assumption_flags \<Rightarrow>
             Inr \<lparr>detected = (length assumption_flags > 0),
                  category = ''cultural_assumption'',
                  scan_flags = assumption_flags,
                  patterns = [],
                  scan_severity = max_severity assumption_flags\<rparr>)"



section \<open>cultural\_analyzer.py: aggregation, insights and suggestions\<close>

text \<open>
  \<open>_load_hofstede_data\<close>: the static country table. The analyzer and the scorer each
  load a table with these same eight rows.
\<close>

definition hofstede_data :: "(string \<times> (string \<times> real) list) list" where
  "hofstede_data =
     [(''US'', [(''PDI'', 40), (''IDV'', 91), (''MAS'', 62), (''UAI'', 46), (''LTO'', 26), (''IVR'', 68)]),
      (''UK'', [(''PDI'', 35), (''IDV'', 89), (''MAS'', 66), (''UAI'', 35), (''LTO'', 51), (''IVR'', 69)]),
      (''JP'', [(''PDI'', 54), (''IDV'', 46), (''MAS'', 95), (''UAI'', 92), (''LTO'', 88), (''IVR'', 42)]),
      (''CN'', [(''PDI'', 80), (''IDV'', 20), (''MAS'', 66), (''UAI'', 30), (''LTO'', 87), (''IVR'', 24)]),
      (''DE'', [(''PDI'', 35), (''IDV'', 67), (''MAS'', 66), (''UAI'', 65), (''LTO'', 83), (''IVR'', 40)]),
      (''FR'', [(''PDI'', 68), (''IDV'', 71), (''MAS'', 43), (''UAI'', 86), (''LTO'', 63), (''IVR'', 48)]),
      (''IN'', [(''PDI'', 77), (''IDV'', 48), (''MAS'', 56), (''UAI'', 40), (''LTO'', 51), (''IVR'', 26)]),
      (''BR'', [(''PDI'', 69), (''IDV'', 38), (''MAS'', 49), (''UAI'', 76), (''LTO'', 44), (''IVR'', 59)])]"

definition analyze_dimensions :: "string \<Rightarrow> (string \<times> real) list \<Rightarrow> string \<Rightarrow> (string \<times> real) list" where
  "analyze_dimensions content dimensions country =
     (let dimension_scores = [];
          pdi_score = analyze_power_distance content (dict_get dimensions ''PDI'' 50);
          dimension_scores = AList.update ''power_distance'' pdi_score dimension_scores;
          idv_score = analyze_individualism content (dict_get dimensions ''IDV'' 50);
          dimension_scores = AList.update ''individualism'' idv_score dimension_scores;
          mas_score = analyze_masculinity content (dict_get dimensions ''MAS'' 50);
          dimension_scores = AList.update ''masculinity'' mas_score dimension_scores;
          uai_score = analyze_uncertainty_avoidance content (dict_get dimensions ''UAI'' 50);
          dimension_scores = AList.update ''uncertainty_avoidance'' uai_score dimension_scores;
          lto_score = analyze_long_term_orientation content (dict_get dimensions ''LTO'' 50);
          dimension_scores = AList.update ''long_term_orientation'' lto_score dimension_scores;
          ivr_score = analyze_indulgence content (dict_get dimensions ''IVR'' 50);
          dimension_scores = AList.update ''indulgence'' ivr_score dimension_scores
      in dimension_scores)"

definition calculate_cultural_score :: "(string \<times> real) list \<Rightarrow> real" where
  "calculate_cultural_score dimension_scores =
     (if dimension_scores = [] then 0.0
      else
        let weights = [(''power_distance'', 0.20), (''individualism'', 0.25),
                       (''masculinity'', 0.15), (''uncertainty_avoidance'', 0.20),
                       (''long_term_orientation'', 0.10), (''indulgence'', 0.10)];
            weighted_score = sum_list [dict_get dimension_scores dim_name 0.5 * weight. (dim_name, weight) \<leftarrow> weights]
        in weighted_score)"

text \<open>
  \<open>max(scores.keys(), key=lambda k: scores[k])\<close> and the matching \<open>min\<close>: the first
  key in iteration order whose value is extreme. The key function is only applied to keys
  of the dictionary, so \<open>scores[k]\<close> never misses.
\<close>

fun max_key :: "('a \<Rightarrow> real) \<Rightarrow> 'a \<Rightarrow> 'a list \<Rightarrow> 'a" where
  "max_key f best [] = best"
| "max_key f best (k # ks) = max_key f (if f k > f best then k else best) ks"

fun min_key :: "('a \<Rightarrow> real) \<Rightarrow> 'a \<Rightarrow> 'a list \<Rightarrow> 'a" where
  "min_key f best [] = best"
| "min_key f best (k # ks) = min_key f (if f k < f best then k else best) ks"

definition get_cultural_notes :: "string \<Rightarrow> (string \<times> real) list \<Rightarrow> string list" where
  "get_cultural_notes country dimensions =
     concat (map (\<lambda>(dim_code, v).
        if v > 80 then [''Very high '' @ dim_code @ '': Consider strong alignment with this cultural trait'']
        else if v < 20 then [''Very low '' @ dim_code @ '': Avoid assumptions related to this cultural trait'']
        else []) dimensions)"

text \<open>
  The insights dictionary. \<open>strongest_alignment\<close> and \<open>weakest_alignment\<close> hold the
  dimension and its score; their rendering as the text \<open>"{dim}: {score:.2f}"\<close> is not
  modelled, and \<open>None\<close> stands for the initial empty text.
\<close>

record country_insights =
  alignment_summary :: string
  strongest_alignment :: "(string \<times> real) option"
  weakest_alignment :: "(string \<times> real) option"
  cultural_notes :: "string list"

definition generate_insights ::
  "string \<Rightarrow> (string \<times> real) list \<Rightarrow> (string \<times> real) list \<Rightarrow> string \<Rightarrow> country_insights" where
  "generate_insights content dimensions scores country =
     (let insights = \<lparr>alignment_summary = '''', strongest_alignment = None,
                       weakest_alignment = None, cultural_notes = []\<rparr>;
          insights =
            (if scores \<noteq> [] then
               let strongest_dim = max_key (\<lambda>k. the (map_of scores k)) (hd (map fst scores)) (tl (map fst scores));
                   weakest_dim = min_key (\<lambda>k. the (map_of scores k)) (hd (map fst scores)) (tl (map fst scores));
                   insights = insights\<lparr>strongest_alignment := Some (strongest_dim, the (map_of scores strongest_dim))\<rparr>;
                   insights = insights\<lparr>weakest_alignment := Some (weakest_dim, the (map_of scores weakest_dim))\<rparr>;
                   overall_score = calculate_cultural_score scores
               in if overall_score > 0.8 then
                    insights\<lparr>alignment_summary := ''Excellent cultural alignment with '' @ country\<rparr>
                  else if overall_score > 0.6 then
                    insights\<lparr>alignment_summary := ''Good cultural alignment with '' @ country\<rparr>
                  else
                    insights\<lparr>alignment_summary := ''Cultural misalignment detected for '' @ country\<rparr>
             else insights)
      in insights\<lparr>cultural_notes := get_cultural_notes country dimensions\<rparr>)"

definition dimension_code_map :: "(string \<times> string) list" where
  "dimension_code_map =
     [(''power_distance'', ''PDI''), (''individualism'', ''IDV''), (''masculinity'', ''MAS''),
      (''uncertainty_avoidance'', ''UAI''), (''long_term_orientation'', ''LTO''), (''indulgence'', ''IVR'')]"

definition get_country_tendency :: "string \<Rightarrow> string \<Rightarrow> string" where
  "get_country_tendency dimension country =
     (let dimensions = dict_get hofstede_data country [];
          v = dict_get dimensions (dict_get dimension_code_map dimension dimension) 50
      in if v > 50 then ''high'' else ''low'')"

definition get_dimension_suggestion :: "string \<Rightarrow> string \<Rightarrow> string \<Rightarrow> string" where
  "get_dimension_suggestion dimension country industry =
     (let suggestions_map =
            [(''power_distance'',
                [(''high'', ''Consider emphasizing hierarchy, authority, and formal structures''),
                 (''low'', ''Focus on equality, accessibility, and collaborative approaches'')]),
             (''individualism'',
                [(''high'', ''Highlight personal choice, individual benefits, and self-expression''),
                 (''low'', ''Emphasize community, family, and collective benefits'')]),
             (''masculinity'',
                [(''high'', ''Focus on achievement, competition, and performance metrics''),
                 (''low'', ''Emphasize cooperation, quality of life, and relationships'')]),
             (''uncertainty_avoidance'',
                [(''high'', ''Provide security, guarantees, and detailed information''),
                 (''low'', ''Embrace flexibility, innovation, and risk-taking'')]),
             (''long_term_orientation'',
                [(''high'', ''Emphasize tradition, patience, and long-term benefits''),
                 (''low'', ''Focus on immediate results and current trends'')]),
             (''indulgence'',
                [(''high'', ''Highlight enjoyment, freedom, and positive emotions''),
                 (''low'', ''Emphasize control, modesty, and serious benefits'')])];
          dimension_suggestions = dict_get suggestions_map dimension [];
          country_tendency = get_country_tendency dimension country
      in dict_get dimension_suggestions country_tendency
           (''Adjust '' @ dimension @ '' alignment for '' @ country))"

fun generate_suggestions :: "(string \<times> real) list \<Rightarrow> string \<Rightarrow> string \<Rightarrow> string list" where
  "generate_suggestions [] country industry = []"
| "generate_suggestions ((dimension, score) # scores) country industry =
     (if score < 0.6 then
        let suggestion = get_dimension_suggestion dimension country industry
        in (if suggestion \<noteq> '''' then [suggestion] else [])
           @ generate_suggestions scores country industry
      else generate_suggestions scores country industry)"

text \<open>
  The result of \<open>analyze_cultural_fit\<close>. A key that a dictionary lacks reads as the
  default of the \<open>.get\<close> that reads it, so the error dictionary of the \<open>except\<close>
  branch is the record with every table empty.
\<close>

record cultural_analysis =
  cultural_scores :: "(string \<times> real) list"
  dimension_analysis :: "(string \<times> (string \<times> real) list) list"
  insights :: "(string \<times> country_insights) list"
  suggestions :: "(string \<times> string list) list"
  industry_context :: string

fun analyze_countries :: "string \<Rightarrow> string \<Rightarrow> string list \<Rightarrow> cultural_analysis \<Rightarrow> cultural_analysis" where
  "analyze_countries content industry [] analysis_results = analysis_results"
| "analyze_countries content industry (country # countries) analysis_results =
     (let dimensions = dict_get hofstede_data country []
      in if dimensions = [] then analyze_countries content industry countries analysis_results
         else
           let dimension_scores = analyze_dimensions content dimensions country;
               cultural_score = calculate_cultural_score dimension_scores;
               country_insights = generate_insights content dimensions dimension_scores country;
               country_suggestions = generate_suggestions dimension_scores country industry
           in analyze_countries content industry countries
                (analysis_results\<lparr>
                   cultural_scores := AList.update country cultural_score (cultural_scores analysis_results),
                   dimension_analysis := AList.update country dimension_scores (dimension_analysis analysis_results),
                   insights := AList.update country country_insights (insights analysis_results),
                   suggestions := AList.update country country_suggestions (suggestions analysis_results)\<rparr>))"

definition analyze_cultural_fit :: "string \<Rightarrow> string list \<Rightarrow> string \<Rightarrow> cultural_analysis" where
  "analyze_cultural_fit content countries industry =
     analyze_countries content industry countries
       \<lparr>cultural_scores = [], dimension_analysis = [], insights = [], suggestions = [],
        industry_context = industry\<rparr>"


section \<open>cultural\_scorer.py\<close>

text \<open>
  The detector's result as the scorer reads it, \<open>bias_results.get("flags", [])\<close>: the
  flat list of all flags, empty when the key is missing. The three weights are those of
  \<open>_load_scoring_weights\<close>.
\<close>

record bias_results =
  flags :: "bias_flag list"

record scoring_weights =
  w_cultural_fit :: real
  w_bias_freedom :: real
  w_confidence_bonus :: real

definition load_scoring_weights :: scoring_weights where
  "load_scoring_weights = \<lparr>w_cultural_fit = 0.7, w_bias_freedom = 0.25, w_confidence_bonus = 0.05\<rparr>"

fun penalty_loop :: "bias_flag list \<Rightarrow> real \<Rightarrow> real" where
  "penalty_loop [] total_penalty = total_penalty"
| "penalty_loop (flag # rest) total_penalty =
     (let sev = (case severity flag of None \<Rightarrow> 5 | Some s \<Rightarrow> s);
          penalty = (real_of_int sev / 10.0) * 0.1
      in penalty_loop rest (total_penalty + penalty))"

definition calculate_bias_penalty :: "bias_results \<Rightarrow> real" where
  "calculate_bias_penalty results =
     (let fs = flags results
      in if fs = [] then 0.0
         else min 0.8 (penalty_loop fs 0.0))"

definition get_cultural_fit_score :: "string \<Rightarrow> cultural_analysis \<Rightarrow> real" where
  "get_cultural_fit_score country analysis = dict_get (cultural_scores analysis) country 0.5"

definition calculate_confidence_bonus :: "string \<Rightarrow> cultural_analysis \<Rightarrow> real" where
  "calculate_confidence_bonus country analysis =
     (let has_hofstede_data = dict_has hofstede_data country;
          has_cultural_analysis = dict_has (cultural_scores analysis) country;
          bonus = 0.0;
          bonus = (if has_hofstede_data then bonus + 0.05 else bonus);
          bonus = (if has_cultural_analysis then bonus + 0.05 else bonus)
      in bonus)"

definition calculate_country_score :: "string \<Rightarrow> bias_results \<Rightarrow> cultural_analysis \<Rightarrow> real" where
  "calculate_country_score country results analysis =
     (let bias_penalty = calculate_bias_penalty results;
          cultural_fit_score = get_cultural_fit_score country analysis;
          confidence_bonus = calculate_confidence_bonus country analysis;
          weights = load_scoring_weights;
          base_score =
            cultural_fit_score * w_cultural_fit weights +
            (1.0 - bias_penalty) * w_bias_freedom weights +
            confidence_bonus * w_confidence_bonus weights
      in max 0.0 (min 1.0 base_score))"

definition assess_data_quality :: "string \<Rightarrow> cultural_analysis \<Rightarrow> real" where
  "assess_data_quality country analysis =
     (let quality_score = 0.0;
          quality_score = (if dict_has hofstede_data country then quality_score + 0.4 else quality_score);
          quality_score = (if dict_has (cultural_scores analysis) country then quality_score + 0.3 else quality_score);
          quality_score = (if dict_has (insights analysis) country then quality_score + 0.3 else quality_score)
      in min 1.0 quality_score)"

record confidence_interval =
  lower_bound :: real
  upper_bound :: real
  confidence_level :: real
  margin_of_error :: real
  data_quality :: real

definition calculate_confidence_interval :: "string \<Rightarrow> real \<Rightarrow> cultural_analysis \<Rightarrow> confidence_interval" where
  "calculate_confidence_interval country score analysis =
     (let quality = assess_data_quality country analysis;
          std_error = (if quality > 0.8 then 0.05 else if quality > 0.6 then 0.10 else 0.15);
          margin = 1.96 * std_error
      in \<lparr>lower_bound = max 0.0 (score - margin),
          upper_bound = min 1.0 (score + margin),
          confidence_level = 0.95,
          margin_of_error = margin,
          data_quality = quality\<rparr>)"

record breakdown =
  cultural_fit :: real
  bias_penalty :: real
  confidence_bonus :: real
  breakdown_data_quality :: real

definition get_score_breakdown :: "string \<Rightarrow> bias_results \<Rightarrow> cultural_analysis \<Rightarrow> breakdown" where
  "get_score_breakdown country results analysis =
     \<lparr>cultural_fit = get_cultural_fit_score country analysis,
      bias_penalty = calculate_bias_penalty results,
      confidence_bonus = calculate_confidence_bonus country analysis,
      breakdown_data_quality = assess_data_quality country analysis\<rparr>"

record alignment_results =
  overall_score :: real
  country_scores :: "(string \<times> real) list"
  confidence :: "(string \<times> confidence_interval) list"
  score_breakdown :: "(string \<times> breakdown) list"

text \<open>
  The loop of \<open>calculate_alignment\<close> over the requested countries; its state is the
  result dictionary and the list \<open>country_scores\<close> of the scores appended so far.
\<close>

fun alignment_loop ::
  "bias_results \<Rightarrow> cultural_analysis \<Rightarrow> string list \<Rightarrow> alignment_results \<times> real list
     \<Rightarrow> alignment_results \<times> real list" where
  "alignment_loop results analysis [] st = st"
| "alignment_loop results analysis (country # target_countries) (alignment, scores) =
     (let country_score = calculate_country_score country results analysis;
          interval = calculate_confidence_interval country country_score analysis;
          alignment = alignment\<lparr>country_scores := AList.update country country_score (country_scores alignment)\<rparr>;
          alignment = alignment\<lparr>confidence := AList.update country interval (confidence alignment)\<rparr>;
          alignment = alignment\<lparr>score_breakdown :=
              AList.update country (get_score_breakdown country results analysis) (score_breakdown alignment)\<rparr>
      in alignment_loop results analysis target_countries (alignment, scores @ [country_score]))"

text \<open>
  \<open>np.mean\<close> of a list of floats. The caller guards the call with \<open>if country_scores\<close>,
  so the list is never empty here.
\<close>

definition np_mean :: "real list \<Rightarrow> real" where
  "np_mean xs = sum_list xs / real (length xs)"

definition calculate_alignment :: "bias_results \<Rightarrow> cultural_analysis \<Rightarrow> string list \<Rightarrow> alignment_results" where
  "calculate_alignment results analysis target_countries =
     (let init = \<lparr>overall_score = 0.0, country_scores = [], confidence = [], score_breakdown = []\<rparr>;
          (alignment, scores) = alignment_loop results analysis target_countries (init, [])
      in if scores \<noteq> [] then alignment\<lparr>overall_score := np_mean scores\<rparr> else alignment)"


section \<open>app.py: recommendations and the risk level\<close>

record recommendation =
  rec_country :: string
  priority :: string
  rec_type :: string
  message :: string
  specific_suggestions :: "string list"

fun generate_recommendations :: "alignment_results \<Rightarrow> cultural_analysis \<Rightarrow> string list \<Rightarrow> recommendation list" where
  "generate_recommendations alignment analysis [] = []"
| "generate_recommendations alignment analysis (country # target_countries) =
     (let score = dict_get (country_scores alignment) country 0
      in (if score < 0.6 then
            [\<lparr>rec_country = country, priority = ''high'', rec_type = ''cultural_adaptation'',
              message = ''Consider significant cultural adaptation for '' @ country,
              specific_suggestions = dict_get (suggestions analysis) country []\<rparr>]
          else if score < 0.8 then
            [\<lparr>rec_country = country, priority = ''medium'', rec_type = ''minor_adjustments'',
              message = ''Minor cultural adjustments recommended for '' @ country,
              specific_suggestions = dict_get (suggestions analysis) country []\<rparr>]
          else [])
         @ generate_recommendations alignment analysis target_countries)"

definition calculate_risk_level :: "alignment_results \<Rightarrow> string" where
  "calculate_risk_level alignment =
     (let overall = overall_score alignment
      in if overall \<ge> 0.8 then ''low''
         else if overall \<ge> 0.6 then ''medium''
         else ''high'')"


section \<open>The specification's formulas\<close>

text \<open>
  The weighted sum of the specification's aggregator: the six fixed weights, with 0.5 for
  a dimension the mapping lacks.
\<close>

definition weighted_sum_spec :: "(string \<times> real) list \<Rightarrow> real" where
  "weighted_sum_spec m =
     dict_get m ''power_distance'' 0.5 * 0.20 + dict_get m ''individualism'' 0.5 * 0.25
     + dict_get m ''masculinity'' 0.5 * 0.15 + dict_get m ''uncertainty_avoidance'' 0.5 * 0.20
     + dict_get m ''long_term_orientation'' 0.5 * 0.10 + dict_get m ''indulgence'' 0.5 * 0.10"

text \<open>
  The specification's bias penalty of one flag, \<open>(severity / 10) \<times> 0.1\<close>; the severity
  of a flag is read as the scorer reads it, with 5 for a flag that has none.
\<close>

definition flag_severity :: "bias_flag \<Rightarrow> int" where
  "flag_severity f = (case severity f of None \<Rightarrow> 5 | Some s \<Rightarrow> s)"

definition flag_penalty :: "bias_flag \<Rightarrow> real" where
  "flag_penalty f = (real_of_int (flag_severity f) / 10) * 0.1"

text \<open>The specification's standard error, by data-quality tier.\<close>

definition std_error_spec :: "real \<Rightarrow> real" where
  "std_error_spec q = (if q > 0.8 then 0.05 else if q > 0.6 then 0.10 else 0.15)"

text \<open>
  The cultural-assumption scan as the specification reads it, on one country's record of
  the external signal: the record is usable when it is a dictionary whose
  \<open>assumption_risk\<close>, if present, is a number; a record without the key has risk 0 and
  a record without a description has the empty description.
\<close>

fun usable_record :: "pyval \<Rightarrow> bool" where
  "usable_record (PyDict d) =
     (case dict_get d ''assumption_risk'' (PyNum 0) of PyNum r \<Rightarrow> True | _ \<Rightarrow> False)"
| "usable_record v = False"

fun risk_of :: "pyval \<Rightarrow> real" where
  "risk_of (PyDict d) =
     (case dict_get d ''assumption_risk'' (PyNum 0) of PyNum r \<Rightarrow> r | _ \<Rightarrow> 0)"
| "risk_of v = 0"

fun description_of :: "pyval \<Rightarrow> pyval" where
  "description_of (PyDict d) = dict_get d ''assumption_description'' (PyStr '''')"
| "description_of v = PyStr ''''"

definition assumption_flag :: "string \<Rightarrow> pyval \<Rightarrow> bias_flag" where
  "assumption_flag country record =
     \<lparr>flag_type = ''cultural_assumption'', flag_country = Some country,
      risk_score = Some (PyNum (risk_of record)), description = description_of record,
      severity = Some \<lfloor>risk_of record * 10\<rfloor>\<rparr>"

definition expected_assumption_flags :: "(string \<times> pyval) list \<Rightarrow> bias_flag list" where
  "expected_assumption_flags signal =
     map (\<lambda>(country, record). assumption_flag country record)
       (filter (\<lambda>(country, record). risk_of record > 0.6) signal)"

section \<open>Properties of the dimension aligner\<close>

lemma keyword_count_nonneg: "0 \<le> keyword_count kws content"
  unfolding keyword_count_def by (induction kws) auto

lemma contentTendency_bounds:
  assumes "0 \<le> h" and "0 \<le> l"
  shows "- 1 \<le> contentTendency h l" and "contentTendency h l \<le> 1"
proof -
  have pos: "0 < real_of_int (max 1 (h + l))" by simp
  have "real_of_int (h - l) \<le> real_of_int (max 1 (h + l))"
    using assms by simp
  then show "contentTendency h l \<le> 1"
    unfolding contentTendency_def using pos by (simp add: divide_le_eq)
  have "- real_of_int (max 1 (h + l)) \<le> real_of_int (h - l)"
    using assms by simp
  then show "- 1 \<le> contentTendency h l"
    unfolding contentTendency_def using pos by (simp add: le_divide_eq)
qed

lemma countryTendency_bounds:
  assumes "0 \<le> v" and "v \<le> 100"
  shows "- 1 \<le> countryTendency v" and "countryTendency v \<le> 1"
  using assms unfolding countryTendency_def by simp_all

lemma clamped_alignment_spec:
  assumes "0 \<le> h" and "0 \<le> l" and "0 \<le> v" and "v \<le> 100"
  shows "alignment_spec h l v
           (max 0 (1 - \<bar>contentTendency h l - countryTendency v\<bar> / 2))"
proof -
  note ct = contentTendency_bounds [OF assms(1,2)]
  note cy = countryTendency_bounds [OF assms(3,4)]
  have le2: "\<bar>contentTendency h l - countryTendency v\<bar> \<le> 2"
    using ct cy by linarith
  then have nonneg: "0 \<le> 1 - \<bar>contentTendency h l - countryTendency v\<bar> / 2"
    by simp
  then have eq: "max 0 (1 - \<bar>contentTendency h l - countryTendency v\<bar> / 2)
             = 1 - \<bar>contentTendency h l - countryTendency v\<bar> / 2"
    by (rule max_absorb2)
  show ?thesis
    unfolding alignment_spec_def eq using le2 by auto
qed

lemma analyze_range:
  assumes "0 \<le> v" and "v \<le> 100"
  shows "0 \<le> analyze_power_distance content v \<and> analyze_power_distance content v \<le> 1"
    and "0 \<le> analyze_individualism content v \<and> analyze_individualism content v \<le> 1"
    and "0 \<le> analyze_masculinity content v \<and> analyze_masculinity content v \<le> 1"
    and "0 \<le> analyze_uncertainty_avoidance content v \<and> analyze_uncertainty_avoidance content v \<le> 1"
    and "0 \<le> analyze_long_term_orientation content v \<and> analyze_long_term_orientation content v \<le> 1"
    and "0 \<le> analyze_indulgence content v \<and> analyze_indulgence content v \<le> 1"
proof -
  have shape: "\<And>hs ls. 0 \<le> max 0 (1 - \<bar>contentTendency (keyword_count hs content) (keyword_count ls content)
                    - countryTendency v\<bar> / 2)
      \<and> max 0 (1 - \<bar>contentTendency (keyword_count hs content) (keyword_count ls content)
                    - countryTendency v\<bar> / 2) \<le> 1"
    using clamped_alignment_spec [OF keyword_count_nonneg keyword_count_nonneg assms]
    unfolding alignment_spec_def by blast
  show "0 \<le> analyze_power_distance content v \<and> analyze_power_distance content v \<le> 1"
    unfolding analyze_power_distance_def Let_def using shape
    by (simp only: contentTendency_def countryTendency_def) simp
  show "0 \<le> analyze_individualism content v \<and> analyze_individualism content v \<le> 1"
    unfolding analyze_individualism_def Let_def using shape
    by (simp only: contentTendency_def countryTendency_def) simp
  show "0 \<le> analyze_masculinity content v \<and> analyze_masculinity content v \<le> 1"
    unfolding analyze_masculinity_def Let_def using shape
    by (simp only: contentTendency_def countryTendency_def) simp
  show "0 \<le> analyze_uncertainty_avoidance content v \<and> analyze_uncertainty_avoidance content v \<le> 1"
    unfolding analyze_uncertainty_avoidance_def Let_def using shape
    by (simp only: contentTendency_def countryTendency_def) simp
  show "0 \<le> analyze_long_term_orientation content v \<and> analyze_long_term_orientation content v \<le> 1"
    unfolding analyze_long_term_orientation_def Let_def using shape
    by (simp only: contentTendency_def countryTendency_def) simp
  show "0 \<le> analyze_indulgence content v \<and> analyze_indulgence content v \<le> 1"
    unfolding analyze_indulgence_def Let_def using shape
    by (simp only: contentTendency_def countryTendency_def) simp
qed

text \<open>
  Claim C1. For every text and every country value in [0,100], each of the six
  dimension analyses returns 1 - |contentTendency - countryTendency| / 2 over its own two
  keyword tables; the value lies in [0,1], is exactly 1 when the two tendencies agree and
  exactly 0 when they sit at the opposite extremes +1 and -1.
\<close>

theorem dimension_alignment_formula:
  assumes "0 \<le> v" and "v \<le> 100"
  shows "alignment_spec
           (keyword_count [''hierarchy'', ''authority'', ''boss'', ''leader'', ''executive'', ''management''] content)
           (keyword_count [''equality'', ''peer'', ''team'', ''collaborative'', ''democratic'', ''accessible''] content)
           v (analyze_power_distance content v)
       \<and> alignment_spec
           (keyword_count [''individual'', ''personal'', ''self'', ''independence'', ''freedom'', ''choice''] content)
           (keyword_count [''community'', ''team'', ''together'', ''family'', ''group'', ''collective''] content)
           v (analyze_individualism content v)
       \<and> alignment_spec
           (keyword_count [''compete'', ''win'', ''achieve'', ''success'', ''performance'', ''ambitious''] content)
           (keyword_count [''caring'', ''quality'', ''cooperation'', ''relationships'', ''supportive'', ''nurturing''] content)
           v (analyze_masculinity content v)
       \<and> alignment_spec
           (keyword_count [''security'', ''certainty'', ''rules'', ''structure'', ''planning'', ''reliable''] content)
           (keyword_count [''flexible'', ''adaptable'', ''innovation'', ''risk'', ''experiment'', ''spontaneous''] content)
           v (analyze_uncertainty_avoidance content v)
       \<and> alignment_spec
           (keyword_count [''future'', ''tradition'', ''persistence'', ''patience'', ''investment'', ''sustainable''] content)
           (keyword_count [''immediate'', ''quick'', ''now'', ''instant'', ''current'', ''present''] content)
           v (analyze_long_term_orientation content v)
       \<and> alignment_spec
           (keyword_count [''enjoy'', ''fun'', ''pleasure'', ''freedom'', ''happiness'', ''celebration''] content)
           (keyword_count [''control'', ''discipline'', ''modest'', ''serious'', ''formal'', ''conservative''] content)
           v (analyze_indulgence content v)"
proof -
  have shape: "\<And>hs ls. alignment_spec (keyword_count hs content) (keyword_count ls content) v
      (max 0 (1 - \<bar>contentTendency (keyword_count hs content) (keyword_count ls content)
                    - countryTendency v\<bar> / 2))"
    by (rule clamped_alignment_spec [OF keyword_count_nonneg keyword_count_nonneg assms])
  show ?thesis
    unfolding analyze_power_distance_def analyze_individualism_def analyze_masculinity_def
      analyze_uncertainty_avoidance_def analyze_long_term_orientation_def
      analyze_indulgence_def Let_def
    using shape
    by (simp only: contentTendency_def countryTendency_def) simp
qed

text \<open>
  The formula at three inputs: two high power-distance keywords against a country value
  of 80 (alignment 0.8), no keyword against the neutral value 50 (equal tendencies,
  alignment 1), and one high keyword against the value 0 (opposite extremes, alignment 0).
\<close>

theorem dimension_alignment_formula_witness:
  "(0::real) \<le> 80 \<and> (80::real) \<le> 100
   \<and> alignment_spec 2 0 80 (analyze_power_distance ''The Boss respects HIERARCHY'' 80)
   \<and> analyze_power_distance ''The Boss respects HIERARCHY'' 80 = 4 / 5
   \<and> contentTendency 0 0 = countryTendency 50
   \<and> analyze_individualism ''Buy it'' 50 = 1
   \<and> contentTendency 1 0 = 1 \<and> countryTendency 0 = - 1
   \<and> analyze_power_distance ''boss'' 0 = 0"
proof -
  have h: "keyword_count [''hierarchy'', ''authority'', ''boss'', ''leader'', ''executive'', ''management'']
             ''The Boss respects HIERARCHY'' = 2"
    by code_simp
  have l: "keyword_count [''equality'', ''peer'', ''team'', ''collaborative'', ''democratic'', ''accessible'']
             ''The Boss respects HIERARCHY'' = 0"
    by code_simp
  have a: "alignment_spec 2 0 80 (analyze_power_distance ''The Boss respects HIERARCHY'' 80)"
    using dimension_alignment_formula [of 80 "''The Boss respects HIERARCHY''"]
    unfolding h l by simp
  have i1: "keyword_count [''individual'', ''personal'', ''self'', ''independence'', ''freedom'', ''choice'']
              ''Buy it'' = 0"
    by code_simp
  have i2: "keyword_count [''community'', ''team'', ''together'', ''family'', ''group'', ''collective'']
              ''Buy it'' = 0"
    by code_simp
  have b: "alignment_spec 0 0 50 (analyze_individualism ''Buy it'' 50)"
    using dimension_alignment_formula [of 50 "''Buy it''"]
    unfolding i1 i2 by simp
  have p1: "keyword_count [''hierarchy'', ''authority'', ''boss'', ''leader'', ''executive'', ''management'']
              ''boss'' = 1"
    by code_simp
  have p2: "keyword_count [''equality'', ''peer'', ''team'', ''collaborative'', ''democratic'', ''accessible'']
              ''boss'' = 0"
    by code_simp
  have c: "alignment_spec 1 0 0 (analyze_power_distance ''boss'' 0)"
    using dimension_alignment_formula [of 0 "''boss''"]
    unfolding p1 p2 by simp
  have t1: "contentTendency 0 0 = countryTendency 50"
    by (simp add: contentTendency_def countryTendency_def)
  have t2: "contentTendency 1 0 = 1" "countryTendency 0 = - 1" "contentTendency 2 0 = 1"
    "countryTendency 80 = 3 / 5"
    by (simp_all add: contentTendency_def countryTendency_def)
  from a have "analyze_power_distance ''The Boss respects HIERARCHY'' 80 = 4 / 5"
    unfolding alignment_spec_def t2 by simp
  moreover from b t1 have "analyze_individualism ''Buy it'' 50 = 1"
    unfolding alignment_spec_def by blast
  moreover from c t2 have "analyze_power_distance ''boss'' 0 = 0"
    unfolding alignment_spec_def by blast
  ultimately show ?thesis using a t1 t2 by simp
qed


section \<open>Properties of the cultural-fit aggregation\<close>

lemma dict_get_bounds:
  assumes "\<forall>(k, v) \<in> set m. lo \<le> v \<and> v \<le> hi" and "lo \<le> d" and "d \<le> hi"
  shows "lo \<le> dict_get m k d \<and> dict_get m k d \<le> (hi::real)"
proof (cases "map_of m k")
  case None
  then show ?thesis using assms by (simp add: dict_get_def)
next
  case (Some v)
  then have "(k, v) \<in> set m" by (rule map_of_SomeD)
  with assms(1) have "lo \<le> v \<and> v \<le> hi" by blast
  with Some show ?thesis by (simp add: dict_get_def)
qed

lemma calculate_cultural_score_nonempty:
  "m \<noteq> [] \<Longrightarrow> calculate_cultural_score m = weighted_sum_spec m"
  by (simp add: calculate_cultural_score_def weighted_sum_spec_def)

lemma six_weights_range:
  fixes a b c d e f :: real
  assumes "0 \<le> a \<and> a \<le> 1" "0 \<le> b \<and> b \<le> 1" "0 \<le> c \<and> c \<le> 1"
    "0 \<le> d \<and> d \<le> 1" "0 \<le> e \<and> e \<le> 1" "0 \<le> f \<and> f \<le> 1"
  shows "0 \<le> a * 0.20 + b * 0.25 + c * 0.15 + d * 0.20 + e * 0.10 + f * 0.10"
    and "a * 0.20 + b * 0.25 + c * 0.15 + d * 0.20 + e * 0.10 + f * 0.10 \<le> 1"
proof -
  have eq: "a * 0.20 + b * 0.25 + c * 0.15 + d * 0.20 + e * 0.10 + f * 0.10
            = a / 5 + b / 4 + 3 * c / 20 + d / 5 + e / 10 + f / 10"
    by simp
  show "0 \<le> a * 0.20 + b * 0.25 + c * 0.15 + d * 0.20 + e * 0.10 + f * 0.10"
    unfolding eq using assms by linarith
  show "a * 0.20 + b * 0.25 + c * 0.15 + d * 0.20 + e * 0.10 + f * 0.10 \<le> 1"
    unfolding eq using assms by linarith
qed

lemma weighted_sum_spec_bounds:
  assumes "\<forall>(k, v) \<in> set m. 0 \<le> v \<and> v \<le> 1"
  shows "0 \<le> weighted_sum_spec m" and "weighted_sum_spec m \<le> 1"
proof -
  have b: "\<And>k. 0 \<le> dict_get m k 0.5 \<and> dict_get m k 0.5 \<le> 1"
    by (rule dict_get_bounds [OF assms]) simp_all
  show "0 \<le> weighted_sum_spec m"
    unfolding weighted_sum_spec_def by (rule six_weights_range(1) [OF b b b b b b])
  show "weighted_sum_spec m \<le> 1"
    unfolding weighted_sum_spec_def by (rule six_weights_range(2) [OF b b b b b b])
qed

text \<open>
  Claim C4, as stated, at the empty mapping: the guard \<open>if not dimension_scores\<close>
  returns 0, where the weighted sum with 0.5 for every missing dimension is 0.5.
\<close>

theorem cultural_score_empty_counterexample:
  "calculate_cultural_score [] = 0 \<and> weighted_sum_spec [] = 1 / 2
   \<and> calculate_cultural_score [] \<noteq> weighted_sum_spec []"
  by (simp add: calculate_cultural_score_def weighted_sum_spec_def dict_get_def)

text \<open>
  Claim C4, amended. For every non-empty mapping of dimension names to scores, also one
  that lacks some of the six dimensions, the aggregation returns the weighted sum with
  the six fixed weights and 0.5 for each missing dimension; for the empty mapping it
  returns 0; and for scores in [0,1] the result lies in [0,1].
\<close>

theorem cultural_score_weighted_sum:
  "calculate_cultural_score [] = 0
   \<and> (m \<noteq> [] \<longrightarrow> calculate_cultural_score m = weighted_sum_spec m)
   \<and> ((\<forall>(k, v) \<in> set m. 0 \<le> v \<and> v \<le> 1)
        \<longrightarrow> 0 \<le> calculate_cultural_score m \<and> calculate_cultural_score m \<le> 1)"
proof (intro conjI impI)
  show "calculate_cultural_score [] = 0" by (simp add: calculate_cultural_score_def)
  show "calculate_cultural_score m = weighted_sum_spec m" if "m \<noteq> []"
    using that by (rule calculate_cultural_score_nonempty)
next
  assume r: "\<forall>(k, v) \<in> set m. 0 \<le> v \<and> v \<le> 1"
  show "0 \<le> calculate_cultural_score m"
  proof (cases "m = []")
    case True
    then show ?thesis by (simp add: calculate_cultural_score_def)
  next
    case False
    then show ?thesis
      using weighted_sum_spec_bounds(1) [OF r] calculate_cultural_score_nonempty [of m] by simp
  qed
  show "calculate_cultural_score m \<le> 1"
  proof (cases "m = []")
    case True
    then show ?thesis by (simp add: calculate_cultural_score_def)
  next
    case False
    then show ?thesis
      using weighted_sum_spec_bounds(2) [OF r] calculate_cultural_score_nonempty [of m] by simp
  qed
qed

theorem cultural_score_weighted_sum_witness:
  "[(''power_distance'', 1::real)] \<noteq> []
   \<and> (0::real) \<le> 1 \<and> (1::real) \<le> 1
   \<and> calculate_cultural_score [(''power_distance'', 1)] = 3 / 5
   \<and> weighted_sum_spec [(''power_distance'', 1)] = 3 / 5
   \<and> 0 \<le> calculate_cultural_score [(''power_distance'', 1)]
   \<and> calculate_cultural_score [(''power_distance'', 1)] \<le> 1"
proof -
  have w: "weighted_sum_spec [(''power_distance'', 1)] = 3 / 5"
    by (simp add: weighted_sum_spec_def dict_get_def)
  show ?thesis
    using cultural_score_weighted_sum [of "[(''power_distance'', 1)]"] w by simp
qed

section \<open>Properties of the alignment summary\<close>

lemma analyze_dimensions_nonempty: "analyze_dimensions content dimensions country \<noteq> []"
  by (simp add: analyze_dimensions_def Let_def)

lemma alignment_summary_cases:
  assumes "scores \<noteq> []"
  shows "alignment_summary (generate_insights content dimensions scores country) =
           (if calculate_cultural_score scores > 0.8 then ''Excellent cultural alignment with '' @ country
            else if calculate_cultural_score scores > 0.6 then ''Good cultural alignment with '' @ country
            else ''Cultural misalignment detected for '' @ country)"
  using assms by (simp add: generate_insights_def Let_def)





section \<open>Properties of the analyzer's results\<close>

text \<open>
  What \<open>analyze_cultural_fit\<close> stores: every cultural score lies in [0,1], and a
  requested country of the static table gets the insights of its own dimension scores,
  whose summary follows the strict thresholds on the stored cultural score.
\<close>

lemma analyze_dimensions_range:
  assumes "\<forall>(k, v) \<in> set dimensions. 0 \<le> v \<and> v \<le> 100"
  shows "\<forall>(k, v) \<in> set (analyze_dimensions content dimensions country). 0 \<le> v \<and> v \<le> 1"
proof -
  have d: "\<And>k. 0 \<le> dict_get dimensions k 50 \<and> dict_get dimensions k 50 \<le> 100"
    by (rule dict_get_bounds [OF assms]) simp_all
  show ?thesis
    using analyze_range [of "dict_get dimensions ''PDI'' 50" content]
      analyze_range [of "dict_get dimensions ''IDV'' 50" content]
      analyze_range [of "dict_get dimensions ''MAS'' 50" content]
      analyze_range [of "dict_get dimensions ''UAI'' 50" content]
      analyze_range [of "dict_get dimensions ''LTO'' 50" content]
      analyze_range [of "dict_get dimensions ''IVR'' 50" content]
      d
    by (simp add: analyze_dimensions_def Let_def)
qed

lemma hofstede_values_range:
  "(c, dims) \<in> set hofstede_data \<Longrightarrow> \<forall>(k, v) \<in> set dims. 0 \<le> v \<and> v \<le> 100"
  by (auto simp: hofstede_data_def)

lemma hofstede_lookup_range:
  "\<forall>(k, v) \<in> set (dict_get hofstede_data country []). 0 \<le> v \<and> v \<le> 100"
proof (cases "map_of hofstede_data country")
  case None
  then show ?thesis by (simp add: dict_get_def)
next
  case (Some dims)
  then have "(country, dims) \<in> set hofstede_data" by (rule map_of_SomeD)
  then show ?thesis using Some hofstede_values_range by (simp add: dict_get_def)
qed

lemma set_update_subset: "set (AList.update k v al) \<subseteq> insert (k, v) (set al)"
  by (induction al) auto

lemma analyze_countries_scores_range:
  assumes "\<forall>(c, v) \<in> set (cultural_scores acc). 0 \<le> v \<and> v \<le> 1"
  shows "\<forall>(c, v) \<in> set (cultural_scores (analyze_countries content industry countries acc)).
           0 \<le> v \<and> v \<le> 1"
  using assms
proof (induction countries arbitrary: acc)
  case Nil
  then show ?case by simp
next
  case (Cons country countries)
  let ?dims = "dict_get hofstede_data country []"
  show ?case
  proof (cases "?dims = []")
    case True
    then show ?thesis using Cons by simp
  next
    case False
    let ?scores = "analyze_dimensions content ?dims country"
    have r: "\<forall>(k, v) \<in> set ?scores. 0 \<le> v \<and> v \<le> 1"
      by (rule analyze_dimensions_range [OF hofstede_lookup_range])
    have ne: "?scores \<noteq> []" by (rule analyze_dimensions_nonempty)
    have cs: "0 \<le> calculate_cultural_score ?scores \<and> calculate_cultural_score ?scores \<le> 1"
      using weighted_sum_spec_bounds [OF r] calculate_cultural_score_nonempty [OF ne] by simp
    let ?acc = "acc\<lparr>
        cultural_scores := AList.update country (calculate_cultural_score ?scores) (cultural_scores acc),
        dimension_analysis := AList.update country ?scores (dimension_analysis acc),
        insights := AList.update country (generate_insights content ?dims ?scores country) (insights acc),
        suggestions := AList.update country (generate_suggestions ?scores country industry) (suggestions acc)\<rparr>"
    have "\<forall>(c, v) \<in> set (AList.update country (calculate_cultural_score ?scores) (cultural_scores acc)).
            0 \<le> v \<and> v \<le> 1"
      using cs Cons.prems set_update_subset [of country "calculate_cultural_score ?scores" "cultural_scores acc"]
      by auto
    then have "\<forall>(c, v) \<in> set (cultural_scores ?acc). 0 \<le> v \<and> v \<le> 1"
      by simp
    then have "\<forall>(c, v) \<in> set (cultural_scores (analyze_countries content industry countries ?acc)).
           0 \<le> v \<and> v \<le> 1"
      by (rule Cons.IH)
    then show ?thesis
      using False by (simp add: Let_def)
  qed
qed

lemma analyze_cultural_fit_scores_range:
  "\<forall>(c, v) \<in> set (cultural_scores (analyze_cultural_fit content countries industry)).
     0 \<le> v \<and> v \<le> 1"
  unfolding analyze_cultural_fit_def
  by (rule analyze_countries_scores_range) simp

lemma analyze_countries_lookup:
  "map_of (insights (analyze_countries content industry countries acc)) c
     = (if c \<in> set countries \<and> dict_get hofstede_data c [] \<noteq> []
        then Some (generate_insights content (dict_get hofstede_data c [])
                     (analyze_dimensions content (dict_get hofstede_data c []) c) c)
        else map_of (insights acc) c)
   \<and> map_of (cultural_scores (analyze_countries content industry countries acc)) c
     = (if c \<in> set countries \<and> dict_get hofstede_data c [] \<noteq> []
        then Some (calculate_cultural_score
                     (analyze_dimensions content (dict_get hofstede_data c []) c))
        else map_of (cultural_scores acc) c)"
  by (induction countries arbitrary: acc) (simp_all add: Let_def AList.update_conv')

lemma analyzed_country_summary:
  assumes "c \<in> set countries" and "dict_has hofstede_data c"
  shows "\<exists>i. map_of (insights (analyze_cultural_fit content countries industry)) c = Some i
           \<and> alignment_summary i =
               (if dict_get (cultural_scores (analyze_cultural_fit content countries industry)) c 0.5 > 0.8
                then ''Excellent cultural alignment with '' @ c
                else if dict_get (cultural_scores (analyze_cultural_fit content countries industry)) c 0.5 > 0.6
                then ''Good cultural alignment with '' @ c
                else ''Cultural misalignment detected for '' @ c)"
proof -
  from assms(2) have "map_of hofstede_data c \<noteq> None"
    by (simp add: dict_has_def map_of_eq_None_iff)
  then obtain dims where m: "map_of hofstede_data c = Some dims"
    by auto
  then have "(c, dims) \<in> set hofstede_data" by (rule map_of_SomeD)
  then have "dims \<noteq> []" by (auto simp: hofstede_data_def)
  with m have ne: "dict_get hofstede_data c [] \<noteq> []" by (simp add: dict_get_def)
  show ?thesis
    using assms(1) ne analyze_countries_lookup [of content industry countries _ c]
    by (simp add: analyze_cultural_fit_def dict_get_def
        alignment_summary_cases [OF analyze_dimensions_nonempty])
qed

section \<open>Properties of the cultural-assumption scan\<close>

lemma risk_to_severity_floor: "0 \<le> r \<Longrightarrow> risk_to_severity r = \<lfloor>r * 10\<rfloor>"
  by (simp add: risk_to_severity_def py_int_def)

lemma assumption_loop_usable:
  assumes "\<forall>(c, v) \<in> set signal. usable_record v"
  shows "assumption_loop signal acc = Inr (acc @ expected_assumption_flags signal)"
  using assms
proof (induction signal arbitrary: acc)
  case Nil
  then show ?case by (simp add: expected_assumption_flags_def)
next
  case (Cons p signal)
  obtain country v where p: "p = (country, v)" by (cases p)
  from Cons.prems p have u: "usable_record v" by simp
  then obtain d where v: "v = PyDict d" by (cases v) simp_all
  from u v obtain r where r: "dict_get d ''assumption_risk'' (PyNum 0) = PyNum r"
    by (cases "dict_get d ''assumption_risk'' (PyNum 0)") simp_all
  from Cons.prems have rest: "\<forall>(c, v) \<in> set signal. usable_record v" by simp
  show ?case
  proof (cases "r > 0.6")
    case True
    then have "0 \<le> r" by simp
    then show ?thesis
      using True
      by (simp add: p v r Cons.IH [OF rest] expected_assumption_flags_def assumption_flag_def
          risk_to_severity_floor)
  next
    case False
    then show ?thesis
      by (simp add: p v r Cons.IH [OF rest] expected_assumption_flags_def)
  qed
qed

text \<open>
  A risk that is not a number makes the comparison raise: the scan does not return.
\<close>

lemma malformed_risk_raises:
  "detect_cultural_assumptions ''Buy it''
     \<lparr>cultural_insights = [(''JP'', PyDict [(''assumption_risk'', PyStr ''high'')])]\<rparr>
   = Inl TypeError"
  by (simp add: detect_cultural_assumptions_def dict_get_def)

text \<open>
  Claim C5, as stated, at a risk of 0.67: \<open>_risk_to_severity\<close> truncates with
  \<open>int\<close>, so the severity is 6, where rounding 6.7 gives 7.
\<close>

theorem assumption_severity_counterexample:
  "detect_cultural_assumptions ''Buy it''
     \<lparr>cultural_insights =
        [(''JP'', PyDict [(''assumption_risk'', PyNum 0.67),
                          (''assumption_description'', PyStr ''Assumes individual choice'')])]\<rparr>
   = Inr \<lparr>detected = True, category = ''cultural_assumption'',
          scan_flags = [\<lparr>flag_type = ''cultural_assumption'', flag_country = Some ''JP'',
                         risk_score = Some (PyNum 0.67),
                         description = PyStr ''Assumes individual choice'',
                         severity = Some 6\<rparr>],
          patterns = [], scan_severity = 6\<rparr>
   \<and> round (0.67 * 10 :: real) = 7"
  by (simp add: detect_cultural_assumptions_def dict_get_def risk_to_severity_def py_int_def
      max_severity_def round_def)

text \<open>
  Claim C5, amended. When every country's record of the external signal is a dictionary
  whose \<open>assumption_risk\<close> is a number or is missing, the scan returns normally and
  emits, in the order of the signal, exactly one flag for each country whose risk exceeds
  0.6 and none for the others; the flag carries the provider's description and the
  severity \<open>\<lfloor>risk \<times> 10\<rfloor>\<close> (truncation, not rounding); a missing risk counts as 0
  and an empty signal gives no flags.
\<close>

theorem assumption_scan_flags:
  assumes "\<forall>(c, v) \<in> set (cultural_insights gemini). usable_record v"
  shows "detect_cultural_assumptions content gemini
           = Inr \<lparr>detected = (expected_assumption_flags (cultural_insights gemini) \<noteq> []),
                  category = ''cultural_assumption'',
                  scan_flags = expected_assumption_flags (cultural_insights gemini),
                  patterns = [],
                  scan_severity = max_severity (expected_assumption_flags (cultural_insights gemini))\<rparr>
       \<and> (cultural_insights gemini = [] \<longrightarrow>
            expected_assumption_flags (cultural_insights gemini) = [])
       \<and> map flag_country (expected_assumption_flags (cultural_insights gemini))
           = map (\<lambda>(c, v). Some c) (filter (\<lambda>(c, v). risk_of v > 0.6) (cultural_insights gemini))
       \<and> (\<forall>(c, v) \<in> set (cultural_insights gemini). risk_of v > 0.6 \<longrightarrow>
            severity (assumption_flag c v) = Some \<lfloor>risk_of v * 10\<rfloor>
            \<and> description (assumption_flag c v) = description_of v)"
proof (intro conjI)
  show "detect_cultural_assumptions content gemini
           = Inr \<lparr>detected = (expected_assumption_flags (cultural_insights gemini) \<noteq> []),
                  category = ''cultural_assumption'',
                  scan_flags = expected_assumption_flags (cultural_insights gemini),
                  patterns = [],
                  scan_severity = max_severity (expected_assumption_flags (cultural_insights gemini))\<rparr>"
    by (simp add: detect_cultural_assumptions_def Let_def assumption_loop_usable [OF assms])
  show "cultural_insights gemini = [] \<longrightarrow> expected_assumption_flags (cultural_insights gemini) = []"
    by (simp add: expected_assumption_flags_def)
  show "map flag_country (expected_assumption_flags (cultural_insights gemini))
           = map (\<lambda>(c, v). Some c) (filter (\<lambda>(c, v). risk_of v > 0.6) (cultural_insights gemini))"
    by (induction "cultural_insights gemini" arbitrary: gemini)
       (auto simp: expected_assumption_flags_def assumption_flag_def)
  show "\<forall>(c, v) \<in> set (cultural_insights gemini). risk_of v > 0.6 \<longrightarrow>
            severity (assumption_flag c v) = Some \<lfloor>risk_of v * 10\<rfloor>
            \<and> description (assumption_flag c v) = description_of v"
    by (simp add: assumption_flag_def case_prod_beta)
qed

theorem assumption_scan_flags_witness:
  "usable_record (PyDict [(''assumption_risk'', PyNum 0.67),
                          (''assumption_description'', PyStr ''Assumes individual choice'')])
   \<and> usable_record (PyDict [(''assumption_risk'', PyNum 0.6)])
   \<and> usable_record (PyDict [(''cultural_fit'', PyStr ''8'')])
   \<and> detect_cultural_assumptions ''Buy it''
        \<lparr>cultural_insights =
           [(''JP'', PyDict [(''assumption_risk'', PyNum 0.67),
                             (''assumption_description'', PyStr ''Assumes individual choice'')]),
            (''US'', PyDict [(''assumption_risk'', PyNum 0.6)]),
            (''DE'', PyDict [(''cultural_fit'', PyStr ''8'')])]\<rparr>
       = Inr \<lparr>detected = True, category = ''cultural_assumption'',
              scan_flags = [\<lparr>flag_type = ''cultural_assumption'', flag_country = Some ''JP'',
                             risk_score = Some (PyNum 0.67),
                             description = PyStr ''Assumes individual choice'',
                             severity = Some 6\<rparr>],
              patterns = [], scan_severity = 6\<rparr>"
  using assumption_scan_flags
    [of "\<lparr>cultural_insights =
           [(''JP'', PyDict [(''assumption_risk'', PyNum 0.67),
                             (''assumption_description'', PyStr ''Assumes individual choice'')]),
            (''US'', PyDict [(''assumption_risk'', PyNum 0.6)]),
            (''DE'', PyDict [(''cultural_fit'', PyStr ''8'')])]\<rparr>" "''Buy it''"]
  by (simp add: dict_get_def expected_assumption_flags_def assumption_flag_def max_severity_def)


section \<open>Properties of the bias penalty\<close>

lemma penalty_loop_sum:
  "penalty_loop fs acc = acc + (\<Sum>f\<leftarrow>fs. flag_penalty f)"
  by (induction fs arbitrary: acc) (simp_all add: flag_penalty_def flag_severity_def Let_def)

lemma calculate_bias_penalty_sum:
  "calculate_bias_penalty results = min 0.8 (\<Sum>f\<leftarrow>flags results. flag_penalty f)"
  by (simp add: calculate_bias_penalty_def Let_def penalty_loop_sum)

lemma flag_penalty_mono:
  "flag_severity f \<le> flag_severity g \<Longrightarrow> flag_penalty f \<le> flag_penalty g"
  by (simp add: flag_penalty_def)

lemma flag_penalty_nonneg: "0 \<le> flag_severity f \<Longrightarrow> 0 \<le> flag_penalty f"
  by (simp add: flag_penalty_def)

lemma penalty_sum_nonneg:
  "\<forall>f \<in> set fs. 0 \<le> flag_severity f \<Longrightarrow> 0 \<le> (\<Sum>f\<leftarrow>fs. flag_penalty f)"
  by (induction fs) (simp_all add: flag_penalty_nonneg)

lemma calculate_bias_penalty_nonneg:
  "\<forall>f \<in> set (flags results). 0 \<le> flag_severity f \<Longrightarrow> 0 \<le> calculate_bias_penalty results"
  using penalty_sum_nonneg [of "flags results"] by (simp add: calculate_bias_penalty_sum)

lemma min_cap_mono: "(x::real) \<le> y \<Longrightarrow> min c x \<le> min c y"
  by (simp add: min_le_iff_disj)

text \<open>
  Claim C2. The bias penalty is \<open>min(0.8, \<Sum> (severity / 10) \<times> 0.1)\<close> over all flags;
  it never exceeds 0.8; it does not decrease when a flag of non-negative severity is
  appended, nor when the severity of one flag is raised; and the penalty reported for a
  country is this same value whatever the country.
\<close>

theorem bias_penalty_properties:
  "calculate_bias_penalty results = min 0.8 (\<Sum>f\<leftarrow>flags results. flag_penalty f)
   \<and> calculate_bias_penalty results \<le> 0.8
   \<and> (0 \<le> flag_severity f \<longrightarrow>
        calculate_bias_penalty results
          \<le> calculate_bias_penalty (results\<lparr>flags := flags results @ [f]\<rparr>))
   \<and> (flags results = xs @ [g] @ ys \<and> flag_severity g \<le> s \<longrightarrow>
        calculate_bias_penalty results
          \<le> calculate_bias_penalty (results\<lparr>flags := xs @ [g\<lparr>severity := Some s\<rparr>] @ ys\<rparr>))
   \<and> bias_penalty (get_score_breakdown country1 results analysis) = calculate_bias_penalty results
   \<and> bias_penalty (get_score_breakdown country1 results analysis)
       = bias_penalty (get_score_breakdown country2 results analysis)"
proof (intro conjI impI)
  show "calculate_bias_penalty results = min 0.8 (\<Sum>f\<leftarrow>flags results. flag_penalty f)"
    by (rule calculate_bias_penalty_sum)
  show "calculate_bias_penalty results \<le> 0.8"
    by (simp add: calculate_bias_penalty_sum)
  show "calculate_bias_penalty results
          \<le> calculate_bias_penalty (results\<lparr>flags := flags results @ [f]\<rparr>)"
    if "0 \<le> flag_severity f"
    unfolding calculate_bias_penalty_sum
    using flag_penalty_nonneg [OF that] by (intro min_cap_mono) simp
  show "calculate_bias_penalty results
          \<le> calculate_bias_penalty (results\<lparr>flags := xs @ [g\<lparr>severity := Some s\<rparr>] @ ys\<rparr>)"
    if h: "flags results = xs @ [g] @ ys \<and> flag_severity g \<le> s"
  proof -
    have "flag_severity (g\<lparr>severity := Some s\<rparr>) = s" by (simp add: flag_severity_def)
    with h have "flag_penalty g \<le> flag_penalty (g\<lparr>severity := Some s\<rparr>)"
      by (simp add: flag_penalty_mono)
    with h show ?thesis
      unfolding calculate_bias_penalty_sum by (intro min_cap_mono) simp
  qed
  show "bias_penalty (get_score_breakdown country1 results analysis) = calculate_bias_penalty results"
    by (simp add: get_score_breakdown_def)
  show "bias_penalty (get_score_breakdown country1 results analysis)
       = bias_penalty (get_score_breakdown country2 results analysis)"
    by (simp add: get_score_breakdown_def)
qed

theorem bias_penalty_properties_witness:
  "0 \<le> flag_severity \<lparr>flag_type = ''representation'', flag_country = None, risk_score = None,
         description = PyStr ''Potentially overgeneralized statements'', severity = Some 4\<rparr>
   \<and> flags \<lparr>flags = [\<lparr>flag_type = ''stereotype'', flag_country = None, risk_score = None,
         description = PyStr ''Potentially offensive cultural descriptors'', severity = Some 8\<rparr>]\<rparr>
       = [] @ [\<lparr>flag_type = ''stereotype'', flag_country = None, risk_score = None,
         description = PyStr ''Potentially offensive cultural descriptors'', severity = Some 8\<rparr>] @ []
   \<and> flag_severity \<lparr>flag_type = ''stereotype'', flag_country = None, risk_score = None,
         description = PyStr ''Potentially offensive cultural descriptors'', severity = Some 8\<rparr> \<le> 9
   \<and> calculate_bias_penalty \<lparr>flags = [\<lparr>flag_type = ''stereotype'', flag_country = None, risk_score = None,
         description = PyStr ''Potentially offensive cultural descriptors'', severity = Some 8\<rparr>]\<rparr> = 0.08
   \<and> calculate_bias_penalty \<lparr>flags = [\<lparr>flag_type = ''stereotype'', flag_country = None, risk_score = None,
         description = PyStr ''Potentially offensive cultural descriptors'', severity = Some 8\<rparr>,
         \<lparr>flag_type = ''representation'', flag_country = None, risk_score = None,
         description = PyStr ''Potentially overgeneralized statements'', severity = Some 4\<rparr>]\<rparr> = 0.12
   \<and> calculate_bias_penalty \<lparr>flags = [\<lparr>flag_type = ''stereotype'', flag_country = None, risk_score = None,
         description = PyStr ''Potentially offensive cultural descriptors'', severity = Some 9\<rparr>]\<rparr> = 0.09"
  using bias_penalty_properties
    [of "\<lparr>flags = [\<lparr>flag_type = ''stereotype'', flag_country = None, risk_score = None,
         description = PyStr ''Potentially offensive cultural descriptors'', severity = Some 8\<rparr>]\<rparr>"
        "\<lparr>flag_type = ''representation'', flag_country = None, risk_score = None,
         description = PyStr ''Potentially overgeneralized statements'', severity = Some 4\<rparr>"
        "[]"
        "\<lparr>flag_type = ''stereotype'', flag_country = None, risk_score = None,
         description = PyStr ''Potentially offensive cultural descriptors'', severity = Some 8\<rparr>"
        "[]" 9]
  by (simp add: flag_penalty_def flag_severity_def calculate_bias_penalty_def)


section \<open>Properties of the final score and its confidence interval\<close>

lemma calculate_confidence_bonus_range:
  "0 \<le> calculate_confidence_bonus country analysis
   \<and> calculate_confidence_bonus country analysis \<le> 0.10"
  by (simp add: calculate_confidence_bonus_def Let_def)

lemma get_cultural_fit_score_le:
  assumes "\<forall>(c, v) \<in> set (cultural_scores analysis). v \<le> 1"
  shows "get_cultural_fit_score country analysis \<le> 1"
proof (cases "map_of (cultural_scores analysis) country")
  case None
  then show ?thesis by (simp add: get_cultural_fit_score_def dict_get_def)
next
  case (Some v)
  then have "(country, v) \<in> set (cultural_scores analysis)" by (rule map_of_SomeD)
  with assms have "v \<le> 1" by blast
  with Some show ?thesis by (simp add: get_cultural_fit_score_def dict_get_def)
qed

lemma country_score_bound:
  assumes "\<forall>(c, v) \<in> set (cultural_scores analysis). v \<le> 1"
    and "\<forall>f \<in> set (flags results). 0 \<le> flag_severity f"
  shows "get_cultural_fit_score country analysis * 0.70 \<le> 0.70
       \<and> (1 - calculate_bias_penalty results) * 0.25 \<le> 0.25
       \<and> calculate_confidence_bonus country analysis * 0.05 \<le> 0.005
       \<and> calculate_country_score country results analysis \<le> 0.955
       \<and> calculate_country_score country results analysis
           = max 0 (get_cultural_fit_score country analysis * 0.70
                    + (1 - calculate_bias_penalty results) * 0.25
                    + calculate_confidence_bonus country analysis * 0.05)"
proof -
  have f: "get_cultural_fit_score country analysis \<le> 1"
    by (rule get_cultural_fit_score_le [OF assms(1)])
  have p: "0 \<le> calculate_bias_penalty results"
    by (rule calculate_bias_penalty_nonneg [OF assms(2)])
  have b: "calculate_confidence_bonus country analysis \<le> 0.10"
    using calculate_confidence_bonus_range by blast
  have t1: "get_cultural_fit_score country analysis * 0.70 \<le> 0.70" using f by simp
  have t2: "(1 - calculate_bias_penalty results) * 0.25 \<le> 0.25" using p by simp
  have t3: "calculate_confidence_bonus country analysis * 0.05 \<le> 0.005" using b by simp
  define B where "B = get_cultural_fit_score country analysis * 0.70
                + (1 - calculate_bias_penalty results) * 0.25
                + calculate_confidence_bonus country analysis * 0.05"
  have base: "B \<le> 0.955"
    unfolding B_def using f p b by (simp add: field_simps)
  have "0.955 \<le> (1::real)" by simp
  with base have "B \<le> 1" by (rule order_trans)
  then have noclamp: "min 1 B = B" by (rule min_absorb2)
  have "calculate_country_score country results analysis = max 0 (min 1 B)"
    by (simp add: B_def calculate_country_score_def load_scoring_weights_def Let_def)
  then have eq: "calculate_country_score country results analysis = max 0 B"
    by (simp only: noclamp)
  have "max 0 B \<le> 0.955" using base by simp
  then have le: "calculate_country_score country results analysis \<le> 0.955"
    by (simp only: eq)
  from t1 t2 t3 le eq show ?thesis unfolding B_def by blast
qed



text \<open>
  The analyzer's own results satisfy the first hypothesis, so in the pipeline the bound
  needs the flags' severities alone.
\<close>

lemma pipeline_final_score_bound:
  assumes "\<forall>f \<in> set (flags results). 0 \<le> flag_severity f"
  shows "calculate_country_score country results
           (analyze_cultural_fit content countries industry) \<le> 0.955"
proof -
  have "\<forall>(c, v) \<in> set (cultural_scores (analyze_cultural_fit content countries industry)). v \<le> 1"
    using analyze_cultural_fit_scores_range [of content countries industry] by auto
  from country_score_bound [OF this assms] show ?thesis by blast
qed

lemma calculate_country_score_range:
  "0 \<le> calculate_country_score country results analysis
   \<and> calculate_country_score country results analysis \<le> 1"
  by (simp add: calculate_country_score_def Let_def)

text \<open>
  Claim C6. For a score s in [0,1] the margin of error is 1.96 times the standard error
  of the data-quality tier (0.05 above 0.8, 0.10 above 0.6, 0.15 otherwise), the bounds
  are \<open>max(0, s - margin)\<close> and \<open>min(1, s + margin)\<close>, so
  \<open>0 \<le> lower \<le> s \<le> upper \<le> 1\<close>, and a bound is clamped only when its unclamped
  value leaves [0,1]. The witness is the score 0.97 with standard error 0.15: the interval
  [0.676, 1] is not symmetric around the score.
\<close>

theorem confidence_interval_bounds:
  assumes "0 \<le> s" and "s \<le> 1"
  shows "margin_of_error (calculate_confidence_interval country s analysis)
           = 1.96 * std_error_spec (assess_data_quality country analysis)
       \<and> data_quality (calculate_confidence_interval country s analysis)
           = assess_data_quality country analysis
       \<and> lower_bound (calculate_confidence_interval country s analysis)
           = max 0 (s - margin_of_error (calculate_confidence_interval country s analysis))
       \<and> upper_bound (calculate_confidence_interval country s analysis)
           = min 1 (s + margin_of_error (calculate_confidence_interval country s analysis))
       \<and> 0 \<le> lower_bound (calculate_confidence_interval country s analysis)
       \<and> lower_bound (calculate_confidence_interval country s analysis) \<le> s
       \<and> s \<le> upper_bound (calculate_confidence_interval country s analysis)
       \<and> upper_bound (calculate_confidence_interval country s analysis) \<le> 1
       \<and> (0 \<le> s - margin_of_error (calculate_confidence_interval country s analysis) \<longrightarrow>
            lower_bound (calculate_confidence_interval country s analysis)
              = s - margin_of_error (calculate_confidence_interval country s analysis))
       \<and> (s + margin_of_error (calculate_confidence_interval country s analysis) \<le> 1 \<longrightarrow>
            upper_bound (calculate_confidence_interval country s analysis)
              = s + margin_of_error (calculate_confidence_interval country s analysis))"
proof -
  have m: "margin_of_error (calculate_confidence_interval country s analysis)
           = 1.96 * std_error_spec (assess_data_quality country analysis)"
    by (simp add: calculate_confidence_interval_def std_error_spec_def Let_def)
  have pos: "0 < margin_of_error (calculate_confidence_interval country s analysis)"
    unfolding m by (simp add: std_error_spec_def)
  have l: "lower_bound (calculate_confidence_interval country s analysis)
           = max 0 (s - margin_of_error (calculate_confidence_interval country s analysis))"
    by (simp add: calculate_confidence_interval_def Let_def)
  have u: "upper_bound (calculate_confidence_interval country s analysis)
           = min 1 (s + margin_of_error (calculate_confidence_interval country s analysis))"
    by (simp add: calculate_confidence_interval_def Let_def)
  have q: "data_quality (calculate_confidence_interval country s analysis)
           = assess_data_quality country analysis"
    by (simp add: calculate_confidence_interval_def Let_def)
  show ?thesis
    using assms pos unfolding l u q
    by (intro conjI impI m refl) (simp_all add: max_def min_def)
qed

theorem confidence_interval_bounds_witness:
  "(0::real) \<le> 0.97 \<and> (0.97::real) \<le> 1
   \<and> assess_data_quality ''XX''
        \<lparr>cultural_scores = [], dimension_analysis = [], insights = [], suggestions = [],
         industry_context = ''general''\<rparr> = 0
   \<and> margin_of_error (calculate_confidence_interval ''XX'' 0.97
        \<lparr>cultural_scores = [], dimension_analysis = [], insights = [], suggestions = [],
         industry_context = ''general''\<rparr>) = 0.294
   \<and> lower_bound (calculate_confidence_interval ''XX'' 0.97
        \<lparr>cultural_scores = [], dimension_analysis = [], insights = [], suggestions = [],
         industry_context = ''general''\<rparr>) = 0.676
   \<and> upper_bound (calculate_confidence_interval ''XX'' 0.97
        \<lparr>cultural_scores = [], dimension_analysis = [], insights = [], suggestions = [],
         industry_context = ''general''\<rparr>) = 1
   \<and> upper_bound (calculate_confidence_interval ''XX'' 0.97
        \<lparr>cultural_scores = [], dimension_analysis = [], insights = [], suggestions = [],
         industry_context = ''general''\<rparr>) - 0.97
       \<noteq> 0.97 - lower_bound (calculate_confidence_interval ''XX'' 0.97
        \<lparr>cultural_scores = [], dimension_analysis = [], insights = [], suggestions = [],
         industry_context = ''general''\<rparr>)"
proof -
  have q: "assess_data_quality ''XX''
        \<lparr>cultural_scores = [], dimension_analysis = [], insights = [], suggestions = [],
         industry_context = ''general''\<rparr> = 0"
    by (simp add: assess_data_quality_def dict_has_def hofstede_data_def)
  show ?thesis
    using confidence_interval_bounds [of "0.97" "''XX''"
        "\<lparr>cultural_scores = [], dimension_analysis = [], insights = [], suggestions = [],
         industry_context = ''general''\<rparr>"]
    by (simp add: q std_error_spec_def)
qed


section \<open>Properties of the alignment calculation\<close>

lemma alignment_loop_scores:
  "snd (alignment_loop results analysis cs (a, sc))
     = sc @ map (\<lambda>c. calculate_country_score c results analysis) cs"
  by (induction cs arbitrary: a sc) (simp_all add: Let_def)

lemma alignment_loop_overall:
  "overall_score (fst (alignment_loop results analysis cs (a, sc))) = overall_score a"
  by (induction cs arbitrary: a sc) (simp_all add: Let_def)

lemma alignment_loop_country_scores:
  "map_of (country_scores (fst (alignment_loop results analysis cs (a, sc)))) c
     = (if c \<in> set cs then Some (calculate_country_score c results analysis)
        else map_of (country_scores a) c)"
  by (induction cs arbitrary: a sc) (simp_all add: Let_def AList.update_conv')

lemma calculate_alignment_overall:
  "overall_score (calculate_alignment results analysis cs)
     = (if cs = [] then 0
        else (\<Sum>c\<leftarrow>cs. calculate_country_score c results analysis) / real (length cs))"
  by (simp add: calculate_alignment_def case_prod_beta Let_def alignment_loop_scores
      alignment_loop_overall np_mean_def)

lemma calculate_alignment_country_scores:
  "map_of (country_scores (calculate_alignment results analysis cs)) c
     = (if c \<in> set cs then Some (calculate_country_score c results analysis) else None)"
  by (simp add: calculate_alignment_def case_prod_beta Let_def alignment_loop_country_scores)

lemma calculate_alignment_dict_get:
  "dict_get (country_scores (calculate_alignment results analysis cs)) c 0
     = (if c \<in> set cs then calculate_country_score c results analysis else 0)"
  by (simp add: dict_get_def calculate_alignment_country_scores)

text \<open>
  Claim C7. The overall score is 0 for an empty list of requested countries and the
  arithmetic mean of the per-country final scores otherwise; the function is total, so it
  returns in both cases, and each requested country's stored score is its final score.
\<close>

theorem overall_score_is_mean:
  "overall_score (calculate_alignment results analysis []) = 0
   \<and> (cs \<noteq> [] \<longrightarrow>
        overall_score (calculate_alignment results analysis cs)
          = (\<Sum>c\<leftarrow>cs. calculate_country_score c results analysis) / real (length cs))
   \<and> (\<forall>c \<in> set cs. map_of (country_scores (calculate_alignment results analysis cs)) c
          = Some (calculate_country_score c results analysis))"
  by (simp add: calculate_alignment_overall calculate_alignment_country_scores)

theorem overall_score_is_mean_witness:
  "[''US'', ''XX''] \<noteq> []
   \<and> overall_score (calculate_alignment \<lparr>flags = []\<rparr>
        \<lparr>cultural_scores = [], dimension_analysis = [], insights = [], suggestions = [],
         industry_context = ''general''\<rparr> [''US'', ''XX'']) = 0.60125
   \<and> map_of (country_scores (calculate_alignment \<lparr>flags = []\<rparr>
        \<lparr>cultural_scores = [], dimension_analysis = [], insights = [], suggestions = [],
         industry_context = ''general''\<rparr> [''US'', ''XX''])) ''US'' = Some 0.6025
   \<and> map_of (country_scores (calculate_alignment \<lparr>flags = []\<rparr>
        \<lparr>cultural_scores = [], dimension_analysis = [], insights = [], suggestions = [],
         industry_context = ''general''\<rparr> [''US'', ''XX''])) ''XX'' = Some 0.6"
proof -
  have us: "calculate_country_score ''US'' \<lparr>flags = []\<rparr>
        \<lparr>cultural_scores = [], dimension_analysis = [], insights = [], suggestions = [],
         industry_context = ''general''\<rparr> = 0.6025"
    by (simp add: calculate_country_score_def calculate_bias_penalty_def
        get_cultural_fit_score_def calculate_confidence_bonus_def load_scoring_weights_def
        dict_get_def dict_has_def hofstede_data_def)
  have xx: "calculate_country_score ''XX'' \<lparr>flags = []\<rparr>
        \<lparr>cultural_scores = [], dimension_analysis = [], insights = [], suggestions = [],
         industry_context = ''general''\<rparr> = 0.6"
    by (simp add: calculate_country_score_def calculate_bias_penalty_def
        get_cultural_fit_score_def calculate_confidence_bonus_def load_scoring_weights_def
        dict_get_def dict_has_def hofstede_data_def)
  show ?thesis
    using overall_score_is_mean [of "\<lparr>flags = []\<rparr>"
        "\<lparr>cultural_scores = [], dimension_analysis = [], insights = [], suggestions = [],
         industry_context = ''general''\<rparr>" "[''US'', ''XX'']"]
    by (simp add: us xx)
qed


section \<open>Properties of the recommendations and the risk level\<close>

lemma recommendations_high:
  "dict_get (country_scores a) c 0 < 0.6 \<Longrightarrow>
   [r \<leftarrow> generate_recommendations a an cs. rec_country r = c]
     = replicate (count_list cs c)
         \<lparr>rec_country = c, priority = ''high'', rec_type = ''cultural_adaptation'',
          message = ''Consider significant cultural adaptation for '' @ c,
          specific_suggestions = dict_get (suggestions an) c []\<rparr>"
  by (induction cs) (simp_all add: Let_def)

lemma recommendations_medium:
  "0.6 \<le> dict_get (country_scores a) c 0 \<Longrightarrow> dict_get (country_scores a) c 0 < 0.8 \<Longrightarrow>
   [r \<leftarrow> generate_recommendations a an cs. rec_country r = c]
     = replicate (count_list cs c)
         \<lparr>rec_country = c, priority = ''medium'', rec_type = ''minor_adjustments'',
          message = ''Minor cultural adjustments recommended for '' @ c,
          specific_suggestions = dict_get (suggestions an) c []\<rparr>"
  by (induction cs) (simp_all add: Let_def)

lemma recommendations_none:
  "0.8 \<le> dict_get (country_scores a) c 0 \<Longrightarrow>
   [r \<leftarrow> generate_recommendations a an cs. rec_country r = c] = []"
  by (induction cs) (simp_all add: Let_def)

text \<open>
  Claim C8. The recommendations emitted for a country are, once per request of that
  country, the "high" / "cultural_adaptation" one when its score is below 0.6, the
  "medium" / "minor_adjustments" one when the score is in [0.6, 0.8), and none when the
  score is at least 0.8; the risk level is "low" from an overall score of 0.8, "medium"
  from 0.6 and "high" below.
\<close>

theorem recommendation_thresholds:
  "(dict_get (country_scores a) c 0 < 0.6 \<longrightarrow>
      [r \<leftarrow> generate_recommendations a an cs. rec_country r = c]
        = replicate (count_list cs c)
            \<lparr>rec_country = c, priority = ''high'', rec_type = ''cultural_adaptation'',
             message = ''Consider significant cultural adaptation for '' @ c,
             specific_suggestions = dict_get (suggestions an) c []\<rparr>)
   \<and> (0.6 \<le> dict_get (country_scores a) c 0 \<and> dict_get (country_scores a) c 0 < 0.8 \<longrightarrow>
      [r \<leftarrow> generate_recommendations a an cs. rec_country r = c]
        = replicate (count_list cs c)
            \<lparr>rec_country = c, priority = ''medium'', rec_type = ''minor_adjustments'',
             message = ''Minor cultural adjustments recommended for '' @ c,
             specific_suggestions = dict_get (suggestions an) c []\<rparr>)
   \<and> (0.8 \<le> dict_get (country_scores a) c 0 \<longrightarrow>
      [r \<leftarrow> generate_recommendations a an cs. rec_country r = c] = [])
   \<and> (c \<in> set cs \<longrightarrow> 0 < count_list cs c)
   \<and> (0.8 \<le> overall_score a \<longrightarrow> calculate_risk_level a = ''low'')
   \<and> (0.6 \<le> overall_score a \<and> overall_score a < 0.8 \<longrightarrow> calculate_risk_level a = ''medium'')
   \<and> (overall_score a < 0.6 \<longrightarrow> calculate_risk_level a = ''high'')"
proof (intro conjI impI)
  show "0 < count_list cs c" if "c \<in> set cs"
    using that by (simp add: count_list_0_iff zero_less_iff_neq_zero)
qed (simp_all add: recommendations_high recommendations_medium recommendations_none
      calculate_risk_level_def Let_def)

theorem recommendation_thresholds_witness:
  "dict_get (country_scores \<lparr>overall_score = 0.7,
        country_scores = [(''US'', 0.5), (''JP'', 0.7), (''DE'', 0.9)],
        confidence = [], score_breakdown = []\<rparr>) ''US'' 0 < 0.6
   \<and> ''US'' \<in> set [''US'', ''JP'', ''DE'']
   \<and> [r \<leftarrow> generate_recommendations \<lparr>overall_score = 0.7,
          country_scores = [(''US'', 0.5), (''JP'', 0.7), (''DE'', 0.9)],
          confidence = [], score_breakdown = []\<rparr>
          \<lparr>cultural_scores = [], dimension_analysis = [], insights = [], suggestions = [],
           industry_context = ''general''\<rparr> [''US'', ''JP'', ''DE'']. rec_country r = ''US'']
       = [\<lparr>rec_country = ''US'', priority = ''high'', rec_type = ''cultural_adaptation'',
           message = ''Consider significant cultural adaptation for US'',
           specific_suggestions = []\<rparr>]
   \<and> 0.6 \<le> overall_score \<lparr>overall_score = 0.7,
        country_scores = [(''US'', 0.5), (''JP'', 0.7), (''DE'', 0.9)],
        confidence = [], score_breakdown = []\<rparr>
   \<and> overall_score \<lparr>overall_score = 0.7,
        country_scores = [(''US'', 0.5), (''JP'', 0.7), (''DE'', 0.9)],
        confidence = [], score_breakdown = []\<rparr> < 0.8
   \<and> calculate_risk_level \<lparr>overall_score = 0.7,
        country_scores = [(''US'', 0.5), (''JP'', 0.7), (''DE'', 0.9)],
        confidence = [], score_breakdown = []\<rparr> = ''medium''"
  using recommendation_thresholds
    [of "\<lparr>overall_score = 0.7,
        country_scores = [(''US'', 0.5), (''JP'', 0.7), (''DE'', 0.9)],
        confidence = [], score_breakdown = []\<rparr>" "''US''"
        "\<lparr>cultural_scores = [], dimension_analysis = [], insights = [], suggestions = [],
           industry_context = ''general''\<rparr>" "[''US'', ''JP'', ''DE'']"]
  by (simp add: dict_get_def)

text \<open>
  Claim C3. With exactly one flag, of severity 8, a cultural fit of 0.7 and a confidence
  bonus of 0.10 for a requested country, the bias penalty is 0.08, the country's final
  score is 0.725, and the recommendations for that country exist and all have priority
  "medium".
\<close>

theorem scenario_single_flag:
  assumes "flags results = [f]" and "severity f = Some 8"
    and "get_cultural_fit_score country analysis = 0.7"
    and "calculate_confidence_bonus country analysis = 0.10"
    and "country \<in> set cs"
  shows "calculate_bias_penalty results = 0.08
       \<and> calculate_country_score country results analysis = 0.725
       \<and> dict_get (country_scores (calculate_alignment results analysis cs)) country 0 = 0.725
       \<and> (\<exists>r \<in> set (generate_recommendations (calculate_alignment results analysis cs) analysis cs).
             rec_country r = country \<and> priority r = ''medium'')
       \<and> (\<forall>r \<in> set (generate_recommendations (calculate_alignment results analysis cs) analysis cs).
             rec_country r = country \<longrightarrow> priority r = ''medium'')"
proof -
  let ?a = "calculate_alignment results analysis cs"
  let ?R = "\<lparr>rec_country = country, priority = ''medium'', rec_type = ''minor_adjustments'',
          message = ''Minor cultural adjustments recommended for '' @ country,
          specific_suggestions = dict_get (suggestions analysis) country []\<rparr>"
  have p: "calculate_bias_penalty results = 0.08"
    using assms(1,2) by (simp add: calculate_bias_penalty_def Let_def)
  have s: "calculate_country_score country results analysis = 0.725"
    by (simp add: calculate_country_score_def load_scoring_weights_def Let_def p assms(3,4))
  have d: "dict_get (country_scores ?a) country 0 = 0.725"
    using assms(5) by (simp add: calculate_alignment_dict_get s)
  have f: "[r \<leftarrow> generate_recommendations ?a analysis cs. rec_country r = country]
             = replicate (count_list cs country) ?R"
    by (rule recommendations_medium) (simp_all add: d)
  have n: "0 < count_list cs country"
    using assms(5) by (simp add: count_list_0_iff zero_less_iff_neq_zero)
  have sf: "set [r \<leftarrow> generate_recommendations ?a analysis cs. rec_country r = country] = {?R}"
    unfolding f using n by simp
  then have mem: "?R \<in> set (generate_recommendations ?a analysis cs)"
    by auto
  have ex: "\<exists>r \<in> set (generate_recommendations ?a analysis cs).
             rec_country r = country \<and> priority r = ''medium''"
    using mem by (intro bexI [of _ ?R]) simp_all
  have all: "\<forall>r \<in> set (generate_recommendations ?a analysis cs).
             rec_country r = country \<longrightarrow> priority r = ''medium''"
  proof (intro ballI impI)
    fix r assume "r \<in> set (generate_recommendations ?a analysis cs)" and "rec_country r = country"
    then have "r \<in> set [r \<leftarrow> generate_recommendations ?a analysis cs. rec_country r = country]"
      by simp
    then have "r = ?R" unfolding sf by simp
    then show "priority r = ''medium''" by simp
  qed
  from p s d ex all show ?thesis by blast
qed

theorem scenario_single_flag_witness:
  "flags \<lparr>flags = [\<lparr>flag_type = ''stereotype'', flag_country = None, risk_score = None,
           description = PyStr ''Potentially offensive cultural descriptors'', severity = Some 8\<rparr>]\<rparr>
     = [\<lparr>flag_type = ''stereotype'', flag_country = None, risk_score = None,
           description = PyStr ''Potentially offensive cultural descriptors'', severity = Some 8\<rparr>]
   \<and> severity \<lparr>flag_type = ''stereotype'', flag_country = None, risk_score = None,
           description = PyStr ''Potentially offensive cultural descriptors'', severity = Some 8\<rparr>
       = Some 8
   \<and> get_cultural_fit_score ''US''
        \<lparr>cultural_scores = [(''US'', 0.7)], dimension_analysis = [], insights = [],
         suggestions = [(''US'', [])], industry_context = ''general''\<rparr> = 0.7
   \<and> calculate_confidence_bonus ''US''
        \<lparr>cultural_scores = [(''US'', 0.7)], dimension_analysis = [], insights = [],
         suggestions = [(''US'', [])], industry_context = ''general''\<rparr> = 0.10
   \<and> ''US'' \<in> set [''US'']
   \<and> calculate_country_score ''US''
        \<lparr>flags = [\<lparr>flag_type = ''stereotype'', flag_country = None, risk_score = None,
           description = PyStr ''Potentially offensive cultural descriptors'', severity = Some 8\<rparr>]\<rparr>
        \<lparr>cultural_scores = [(''US'', 0.7)], dimension_analysis = [], insights = [],
         suggestions = [(''US'', [])], industry_context = ''general''\<rparr> = 0.725
   \<and> generate_recommendations
        (calculate_alignment
          \<lparr>flags = [\<lparr>flag_type = ''stereotype'', flag_country = None, risk_score = None,
             description = PyStr ''Potentially offensive cultural descriptors'', severity = Some 8\<rparr>]\<rparr>
          \<lparr>cultural_scores = [(''US'', 0.7)], dimension_analysis = [], insights = [],
           suggestions = [(''US'', [])], industry_context = ''general''\<rparr> [''US''])
        \<lparr>cultural_scores = [(''US'', 0.7)], dimension_analysis = [], insights = [],
         suggestions = [(''US'', [])], industry_context = ''general''\<rparr> [''US'']
       = [\<lparr>rec_country = ''US'', priority = ''medium'', rec_type = ''minor_adjustments'',
           message = ''Minor cultural adjustments recommended for US'',
           specific_suggestions = []\<rparr>]"
proof -
  let ?f = "\<lparr>flag_type = ''stereotype'', flag_country = None, risk_score = None,
           description = PyStr ''Potentially offensive cultural descriptors'', severity = Some 8\<rparr>"
  let ?r = "\<lparr>flags = [?f]\<rparr>"
  let ?a = "\<lparr>cultural_scores = [(''US'', 0.7)], dimension_analysis = [], insights = [],
         suggestions = [(''US'', [])], industry_context = ''general''\<rparr>"
  have h1: "flags ?r = [?f]" by simp
  have h2: "severity ?f = Some 8" by simp
  have h3: "get_cultural_fit_score ''US'' ?a = 0.7"
    by (simp add: get_cultural_fit_score_def dict_get_def)
  have h4: "calculate_confidence_bonus ''US'' ?a = 0.10"
    by (simp add: calculate_confidence_bonus_def dict_has_def hofstede_data_def)
  have h5: "''US'' \<in> set [''US'']" by simp
  note t = scenario_single_flag [OF h1 h2 h3 h4 h5]
  from t have s: "calculate_country_score ''US'' ?r ?a = 0.725" by blast
  from t have d: "dict_get (country_scores (calculate_alignment ?r ?a [''US''])) ''US'' 0 = 0.725"
    by blast
  have sg: "dict_get [(''US'', [])] ''US'' [] = ([] :: string list)"
    by (simp add: dict_get_def)
  have g: "generate_recommendations (calculate_alignment ?r ?a [''US'']) ?a [''US'']
       = [\<lparr>rec_country = ''US'', priority = ''medium'', rec_type = ''minor_adjustments'',
           message = ''Minor cultural adjustments recommended for US'',
           specific_suggestions = []\<rparr>]"
    by (simp add: d sg Let_def)
  from h1 h2 h3 h4 h5 s g show ?thesis by blast
qed

end
